theory Spec2Isabelle
  imports Complex_Main
begin

section \<open>Python values, exceptions and the request context\<close>

text \<open>
  The development follows \<^verbatim>\<open>src/lib/execution_engine2/SDKMethodRunner.py\<close>.
  Python is dynamically typed, so the arguments the methods inspect with
  \<^verbatim>\<open>is\<close>, \<^verbatim>\<open>in\<close> and \<^verbatim>\<open>isinstance\<close> are values of one
  universe. The type parameters \<open>'f\<close> and \<open>'d\<close> stand for Python's \<^verbatim>\<open>float\<close>
  and \<^verbatim>\<open>datetime\<close>, whose operations belong to the interpreter and its libraries.
  A \<open>string\<close> is read as a sequence of code points below 256.
\<close>

text \<open>\<^verbatim>\<open>class JobPermissions(Enum): READ = "r"; WRITE = "w"; NONE = "n"\<close>\<close>

datatype JobPermissions = READ | WRITE | NONE

datatype ('f, 'd) pyval =
    PyNone
  | PyBool bool
  | PyInt int
  | PyStr string
  | PyFloat 'f
  | PyDatetime 'd
  | PyPerm JobPermissions

text \<open>
  The exceptions the modelled methods raise, one constructor per \<^verbatim>\<open>raise\<close>
  statement (and one for the read of an unbound local variable), plus the exceptions of
  the collaborators that the methods let through.
  \<^item> \<open>UnboundLocalError_permission\<close>: the local \<^verbatim>\<open>permission\<close> is read before
    any assignment;
  \<^item> \<open>Exception_programming_error\<close>:
    \<^verbatim>\<open>Exception("Programming Error! Something went wrong here.")\<close>;
  \<^item> \<open>Exception_not_permitted p\<close>:
    \<^verbatim>\<open>Exception(f"You are not permitted to cancel this job. Required permission={p}")\<close>;
  \<^item> \<open>ValueError_job_id\<close>: \<^verbatim>\<open>ValueError("Please provide valid job_id")\<close>;
  \<^item> \<open>ValueError_time v\<close>:
    \<^verbatim>\<open>ValueError("Cannot convert time_input into timestamps: {}".format(v))\<close>.
\<close>

datatype ('f, 'd) pyexc =
    UnboundLocalError_permission
  | Exception_programming_error
  | Exception_not_permitted JobPermissions
  | ValueError_job_id
  | ValueError_time "('f, 'd) pyval"
  | Collaborator_error string

text \<open>
  The fields of \<^verbatim>\<open>SDKMethodRunner\<close> that the modelled methods read. Both caches
  are dictionary-like objects obtained from \<^verbatim>\<open>ee2_cache.get_cache\<close> in
  \<^verbatim>\<open>__init__\<close>; a cache is a finite map from keys to values, and membership
  (\<^verbatim>\<open>key in cache\<close>) is definedness of the map at the key.
\<close>

record ('f, 'd) SDKMethodRunner =
  user_id :: "('f, 'd) pyval"
  job_permission_cache :: "('f, 'd) pyval \<rightharpoonup> ('f, 'd) pyval"
  roles_cache :: "('f, 'd) pyval \<rightharpoonup> ('f, 'd) pyval"

text \<open>
  A call that may raise and may change the world outside the request context (the job
  store, the scheduler, the caches of the collaborators): it maps the world to an outcome
  and the world left behind. A raise is \<open>Inl\<close>.
\<close>

type_synonym ('f, 'd, 'r, 'w) call = "'w \<Rightarrow> (('f, 'd) pyexc + 'r) \<times> 'w"

section \<open>Administrator permission\<close>

text \<open>
  \<^verbatim>\<open>get_admin_permission(self, requested_permission)\<close>. The first statement binds
  the local \<^verbatim>\<open>permission\<close> only when \<^verbatim>\<open>self.user_id\<close> is a key of
  \<^verbatim>\<open>self.job_permission_cache\<close>; the local is \<open>None\<close> (unbound) otherwise, and
  reading it then raises \<^verbatim>\<open>UnboundLocalError\<close>. The branch on
  \<^verbatim>\<open>requested_permission\<close> follows the source's order; the last branch does not
  read \<^verbatim>\<open>permission\<close>.
\<close>

definition get_admin_permission ::
  "('f, 'd) SDKMethodRunner \<Rightarrow> ('f, 'd) pyval \<Rightarrow> ('f, 'd) pyexc + bool" where
  "get_admin_permission self requested_permission =
     (let permission = job_permission_cache self (user_id self) in
      if requested_permission = PyPerm READ then
        (case permission of
           None \<Rightarrow> Inl UnboundLocalError_permission
         | Some p \<Rightarrow> if p \<in> set [PyPerm READ, PyPerm WRITE] then Inr True else Inr False)
      else if requested_permission = PyPerm WRITE then
        (case permission of
           None \<Rightarrow> Inl UnboundLocalError_permission
         | Some p \<Rightarrow> Inr (p \<in> set [PyPerm WRITE]))
      else Inl Exception_programming_error)"

section \<open>Delegation to the job-status subsystem\<close>

text \<open>
  The methods below end in a call of a method of \<^verbatim>\<open>self.get_jobs_status()\<close>, an
  object of \<^verbatim>\<open>ee2_status.JobsStatus\<close>. A delegated call is recorded with the
  keyword arguments it is given, and the subsystem is a function from such a call to
  what it does.
\<close>

datatype ('f, 'd) jobs_status_call =
    JS_check_job "('f, 'd) pyval" "('f, 'd) pyval" "('f, 'd) pyval"
  | JS_update_job_status "('f, 'd) pyval" "('f, 'd) pyval"
  | JS_check_job_canceled "('f, 'd) pyval" "('f, 'd) pyval"

text \<open>
  The arguments are, in this order: \<^verbatim>\<open>job_id, check_permission, exclude_fields\<close> of
  \<^verbatim>\<open>check_job\<close>; \<^verbatim>\<open>job_id, status\<close> of \<^verbatim>\<open>update_job_status\<close>;
  \<^verbatim>\<open>job_id, as_admin\<close> of \<^verbatim>\<open>check_job_canceled\<close>.
\<close>

text \<open>\<^verbatim>\<open>check_job(self, job_id, check_permission=None, exclude_fields=None, as_admin=False)\<close>\<close>

definition check_job ::
  "(('f, 'd) jobs_status_call \<Rightarrow> ('f, 'd, 'r, 'w) call) \<Rightarrow> ('f, 'd) pyval \<Rightarrow> ('f, 'd) pyval \<Rightarrow>
     ('f, 'd) pyval \<Rightarrow> ('f, 'd) pyval \<Rightarrow> ('f, 'd, 'r, 'w) call" where
  "check_job jobs_status job_id check_permission exclude_fields as_admin =
     jobs_status (JS_check_job job_id check_permission exclude_fields)"

text \<open>\<^verbatim>\<open>update_job_status(self, job_id, status, as_admin=None)\<close>\<close>

definition update_job_status ::
  "(('f, 'd) jobs_status_call \<Rightarrow> ('f, 'd, 'r, 'w) call) \<Rightarrow> ('f, 'd) pyval \<Rightarrow> ('f, 'd) pyval \<Rightarrow>
     ('f, 'd) pyval \<Rightarrow> ('f, 'd, 'r, 'w) call" where
  "update_job_status jobs_status job_id status as_admin =
     jobs_status (JS_update_job_status job_id status)"

text \<open>
  \<^verbatim>\<open>check_job_canceled(self, job_id, as_admin=False)\<close>. The test is
  \<^verbatim>\<open>as_admin is True\<close>: only the boolean \<^verbatim>\<open>True\<close> passes it. An exception of
  \<^verbatim>\<open>get_admin_permission\<close> propagates.
\<close>

definition check_job_canceled ::
  "('f, 'd) SDKMethodRunner \<Rightarrow> (('f, 'd) jobs_status_call \<Rightarrow> ('f, 'd, 'r, 'w) call) \<Rightarrow>
     ('f, 'd) pyval \<Rightarrow> ('f, 'd) pyval \<Rightarrow> ('f, 'd, 'r, 'w) call" where
  "check_job_canceled self jobs_status job_id as_admin w =
     (if as_admin = PyBool True then
        (case get_admin_permission self (PyPerm READ) of
           Inl e \<Rightarrow> (Inl e, w)
         | Inr permitted \<Rightarrow>
             if \<not> permitted then (Inl (Exception_not_permitted READ), w)
             else jobs_status (JS_check_job_canceled job_id as_admin) w)
      else jobs_status (JS_check_job_canceled job_id as_admin) w)"

section \<open>Permission decorators\<close>

text \<open>
  \<^verbatim>\<open>kwargs.get("job_id")\<close>: the value stored under the key, \<^verbatim>\<open>None\<close> when
  the key is missing.
\<close>

definition kwargs_get :: "(string \<rightharpoonup> ('f, 'd) pyval) \<Rightarrow> string \<Rightarrow> ('f, 'd) pyval" where
  "kwargs_get kwargs k = (case kwargs k of None \<Rightarrow> PyNone | Some v \<Rightarrow> v)"

text \<open>
  \<^verbatim>\<open>allow_job_read(func)\<close> and \<^verbatim>\<open>allow_job_write(func)\<close> return the function
  \<^verbatim>\<open>inner(self, *args, **kwargs)\<close>. The method
  \<^verbatim>\<open>self._test_job_permission_with_cache\<close> that \<^verbatim>\<open>inner\<close> calls is not defined
  in the source file; it is the parameter \<open>test_job_permission_with_cache\<close>.
\<close>

definition allow_job_read ::
  "(('f, 'd) SDKMethodRunner \<Rightarrow> ('f, 'd) pyval \<Rightarrow> JobPermissions \<Rightarrow> ('f, 'd, 'u, 'w) call) \<Rightarrow>
   (('f, 'd) SDKMethodRunner \<Rightarrow> ('f, 'd) pyval list \<Rightarrow> (string \<rightharpoonup> ('f, 'd) pyval) \<Rightarrow>
      ('f, 'd, 'r, 'w) call) \<Rightarrow>
   ('f, 'd) SDKMethodRunner \<Rightarrow> ('f, 'd) pyval list \<Rightarrow> (string \<rightharpoonup> ('f, 'd) pyval) \<Rightarrow>
      ('f, 'd, 'r, 'w) call" where
  "allow_job_read test_job_permission_with_cache func self args kwargs w =
     (let job_id = kwargs_get kwargs ''job_id'' in
      if job_id = PyNone then (Inl ValueError_job_id, w)
      else (case test_job_permission_with_cache self job_id READ w of
              (Inl e, w') \<Rightarrow> (Inl e, w')
            | (Inr _, w') \<Rightarrow> func self args kwargs w'))"

definition allow_job_write ::
  "(('f, 'd) SDKMethodRunner \<Rightarrow> ('f, 'd) pyval \<Rightarrow> JobPermissions \<Rightarrow> ('f, 'd, 'u, 'w) call) \<Rightarrow>
   (('f, 'd) SDKMethodRunner \<Rightarrow> ('f, 'd) pyval list \<Rightarrow> (string \<rightharpoonup> ('f, 'd) pyval) \<Rightarrow>
      ('f, 'd, 'r, 'w) call) \<Rightarrow>
   ('f, 'd) SDKMethodRunner \<Rightarrow> ('f, 'd) pyval list \<Rightarrow> (string \<rightharpoonup> ('f, 'd) pyval) \<Rightarrow>
      ('f, 'd, 'r, 'w) call" where
  "allow_job_write test_job_permission_with_cache func self args kwargs w =
     (let job_id = kwargs_get kwargs ''job_id'' in
      if job_id = PyNone then (Inl ValueError_job_id, w)
      else (case test_job_permission_with_cache self job_id WRITE w of
              (Inl e, w') \<Rightarrow> (Inl e, w')
            | (Inr _, w') \<Rightarrow> func self args kwargs w'))"

section \<open>Timestamp conversion\<close>

text \<open>
  What \<^verbatim>\<open>_check_and_convert_time\<close> takes from the interpreter and its libraries.
  Each field is a pure function of its argument; \<open>None\<close> stands for a raised exception.
  \<^item> \<open>float_of_str s\<close>: \<^verbatim>\<open>float(s)\<close>;
  \<^item> \<open>int_truediv_1000 n\<close>: \<^verbatim>\<open>n / 1000.0\<close> for an \<^verbatim>\<open>int\<close> (it raises
    \<^verbatim>\<open>OverflowError\<close> when \<open>n\<close> is too large for a float);
  \<^item> \<open>dateutil_parse_timestamp s\<close>: \<^verbatim>\<open>dateutil.parser.parse(s).timestamp()\<close>;
  \<^item> \<open>datetime_timestamp d\<close>: \<^verbatim>\<open>d.timestamp()\<close>;
  \<^item> \<open>fromtimestamp_ok x\<close>: \<^verbatim>\<open>datetime.fromtimestamp(x)\<close> returns for the float
    \<open>x\<close>;
  \<^item> \<open>time_time\<close>: the value of \<^verbatim>\<open>time.time()\<close> at the call.
\<close>

record ('f, 'd) pylib =
  float_of_str :: "string \<Rightarrow> 'f option"
  int_truediv_1000 :: "int \<Rightarrow> 'f option"
  dateutil_parse_timestamp :: "string \<Rightarrow> 'f option"
  datetime_timestamp :: "'d \<Rightarrow> 'f option"
  fromtimestamp_ok :: "'f \<Rightarrow> bool"
  time_time :: "'f"

text \<open>
  \<^verbatim>\<open>str.isdigit()\<close>: the string is not empty and every character is a digit. Below
  256 the digits are \<^verbatim>\<open>0\<close> to \<^verbatim>\<open>9\<close> (the decimal digits) and the superscripts
  U+00B2, U+00B3 and U+00B9, which \<^verbatim>\<open>int\<close> does not accept.
\<close>

definition isdecimal_char :: "char \<Rightarrow> bool" where
  "isdecimal_char c = (48 \<le> (of_char c :: nat) \<and> (of_char c :: nat) \<le> 57)"

definition isdigit_char :: "char \<Rightarrow> bool" where
  "isdigit_char c = (isdecimal_char c \<or> (of_char c :: nat) \<in> set [178, 179, 185])"

definition str_isdigit :: "string \<Rightarrow> bool" where
  "str_isdigit s = (s \<noteq> [] \<and> list_all isdigit_char s)"

text \<open>\<^verbatim>\<open>s.replace(".", "", 1)\<close>: the first dot of \<open>s\<close>, if there is one, is removed.\<close>

definition str_replace_dot_once :: "string \<Rightarrow> string" where
  "str_replace_dot_once s = remove1 (CHR ''.'') s"

text \<open>
  \<^verbatim>\<open>int(s)\<close> on a string of digits: the decimal value when every character is a
  decimal digit, \<^verbatim>\<open>ValueError\<close> otherwise.
\<close>

definition decimal_value :: "string \<Rightarrow> int" where
  "decimal_value s = foldl (\<lambda>a c. 10 * a + (int (of_char c) - 48)) 0 s"

definition int_of_str :: "string \<Rightarrow> int option" where
  "int_of_str s =
     (if s \<noteq> [] \<and> list_all isdecimal_char s then Some (decimal_value s) else None)"

text \<open>
  The chain of \<^verbatim>\<open>isinstance\<close> tests at the head of the \<^verbatim>\<open>try\<close> block: the
  value assigned to \<^verbatim>\<open>time_input\<close>, or \<open>None\<close> when a step raises (\<^verbatim>\<open>time_input\<close>
  then keeps its value). The order is the source's: \<^verbatim>\<open>str\<close>, then \<^verbatim>\<open>int\<close>, then
  \<^verbatim>\<open>datetime\<close>. In Python \<^verbatim>\<open>bool\<close> is a subclass of \<^verbatim>\<open>int\<close>, so
  \<^verbatim>\<open>isinstance(True, int)\<close> holds and \<^verbatim>\<open>True / 1000.0\<close> is \<^verbatim>\<open>1 / 1000.0\<close>.
  A value of any other type is left as it is.
\<close>

definition convert_time_input ::
  "('f, 'd) pylib \<Rightarrow> ('f, 'd) pyval \<Rightarrow> ('f, 'd) pyval option" where
  "convert_time_input lib time_input =
     (case time_input of
        PyStr s \<Rightarrow>
          if str_isdigit (str_replace_dot_once s) then
            (if CHR ''.'' \<in> set s then map_option PyFloat (float_of_str lib s)
             else (case int_of_str s of
                     None \<Rightarrow> None
                   | Some n \<Rightarrow> map_option PyFloat (int_truediv_1000 lib n)))
          else map_option PyFloat (dateutil_parse_timestamp lib s)
      | PyBool b \<Rightarrow> map_option PyFloat (int_truediv_1000 lib (if b then 1 else 0))
      | PyInt n \<Rightarrow> map_option PyFloat (int_truediv_1000 lib n)
      | PyDatetime d \<Rightarrow> map_option PyFloat (datetime_timestamp lib d)
      | PyNone \<Rightarrow> Some time_input
      | PyFloat x \<Rightarrow> Some time_input
      | PyPerm p \<Rightarrow> Some time_input)"

text \<open>
  \<^verbatim>\<open>datetime.fromtimestamp(time_input)\<close>, the last statement of the \<^verbatim>\<open>try\<close>
  block: whether it returns. The values that reach it are floats and the values the
  chain left alone; \<^verbatim>\<open>None\<close> and an enum member raise \<^verbatim>\<open>TypeError\<close>.
\<close>

definition fromtimestamp_succeeds :: "('f, 'd) pylib \<Rightarrow> ('f, 'd) pyval \<Rightarrow> bool" where
  "fromtimestamp_succeeds lib v = (case v of PyFloat x \<Rightarrow> fromtimestamp_ok lib x | _ \<Rightarrow> False)"

text \<open>A record of \<^verbatim>\<open>logging.info("Cannot convert time_input into timestamps: {}".format(v))\<close>.\<close>

datatype ('f, 'd) log_record = Logging_info_cannot_convert "('f, 'd) pyval"

text \<open>
  The \<^verbatim>\<open>except Exception\<close> handler, entered with the value \<^verbatim>\<open>time_input\<close> has
  at the raise.
\<close>

definition except_handler ::
  "('f, 'd) pylib \<Rightarrow> ('f, 'd) pyval \<Rightarrow> bool \<Rightarrow>
     (('f, 'd) pyexc + ('f, 'd) pyval) \<times> ('f, 'd) log_record list" where
  "except_handler lib time_input assign_default_time =
     (if assign_default_time
      then (Inr (PyFloat (time_time lib)), [Logging_info_cannot_convert time_input])
      else (Inl (ValueError_time time_input), []))"

text \<open>
  \<^verbatim>\<open>_check_and_convert_time(time_input, assign_default_time=False)\<close>: the outcome and
  the records logged.
\<close>

definition check_and_convert_time ::
  "('f, 'd) pylib \<Rightarrow> ('f, 'd) pyval \<Rightarrow> bool \<Rightarrow>
     (('f, 'd) pyexc + ('f, 'd) pyval) \<times> ('f, 'd) log_record list" where
  "check_and_convert_time lib time_input assign_default_time =
     (case convert_time_input lib time_input of
        None \<Rightarrow> except_handler lib time_input assign_default_time
      | Some v \<Rightarrow>
          if fromtimestamp_succeeds lib v then (Inr v, [])
          else except_handler lib v assign_default_time)"

subsection \<open>A library instance for running the conversion\<close>

text \<open>
  An instance of the library with exact rational arithmetic in place of binary floating
  point, in a process whose local time is UTC: \<^verbatim>\<open>float\<close> of a string of decimal
  digits around one dot is its decimal value, \<^verbatim>\<open>n / 1000.0\<close> is the quotient,
  a \<^verbatim>\<open>datetime\<close> is identified with its epoch seconds, \<^verbatim>\<open>datetime.fromtimestamp\<close>
  accepts the instants of the years 1 to 9999, and the date parser knows one date string
  and rejects every other string. A rational stands for the float nearest to it; the
  general theorems below hold for every library, this one included.
\<close>

definition sample_float_of_str :: "string \<Rightarrow> rat option" where
  "sample_float_of_str s =
     (let digits = remove1 (CHR ''.'') s;
          fraction = drop 1 (dropWhile (\<lambda>c. c \<noteq> CHR ''.'') s)
      in if CHR ''.'' \<in> set s \<and> digits \<noteq> [] \<and> list_all isdecimal_char digits
         then Some (of_int (decimal_value digits) / 10 ^ length fraction)
         else None)"

definition sample_lib :: "(rat, rat) pylib" where
  "sample_lib =
     \<lparr> float_of_str = sample_float_of_str,
       int_truediv_1000 = (\<lambda>n. Some (of_int n / 1000)),
       dateutil_parse_timestamp =
         (\<lambda>s. if s = ''2021-01-07T00:00:00Z'' then Some 1609977600 else None),
       datetime_timestamp = (\<lambda>d. Some d),
       fromtimestamp_ok = (\<lambda>x. - 62135596800 \<le> x \<and> x < 253402300800),
       time_time = 1762214400 \<rparr>"

section \<open>Sample callers and collaborators\<close>

text \<open>
  Concrete request contexts and collaborators on which the methods are run below. The
  collaborators append what they are asked to do to the world, a list, so that a run
  shows which of them were reached.
\<close>

abbreviation sample_caller ::
  "string \<Rightarrow> ((rat, rat) pyval \<rightharpoonup> (rat, rat) pyval) \<Rightarrow> ((rat, rat) pyval \<rightharpoonup> (rat, rat) pyval) \<Rightarrow>
     (rat, rat) SDKMethodRunner" where
  "sample_caller u jc rc \<equiv> \<lparr>user_id = PyStr u, job_permission_cache = jc, roles_cache = rc\<rparr>"

abbreviation recording_jobs_status ::
  "(rat, rat) jobs_status_call \<Rightarrow>
     (rat, rat, (rat, rat) pyval, (rat, rat) jobs_status_call list) call" where
  "recording_jobs_status \<equiv> (\<lambda>c w. (Inr (PyBool False), w @ [c]))"

abbreviation recording_permission_test ::
  "(rat, rat) SDKMethodRunner \<Rightarrow> (rat, rat) pyval \<Rightarrow> JobPermissions \<Rightarrow>
     (rat, rat, unit, string list) call" where
  "recording_permission_test \<equiv> (\<lambda>self job_id p w. (Inr (), w @ [''permission test'']))"

abbreviation recording_operation ::
  "(rat, rat) SDKMethodRunner \<Rightarrow> (rat, rat) pyval list \<Rightarrow> (string \<rightharpoonup> (rat, rat) pyval) \<Rightarrow>
     (rat, rat, (rat, rat) pyval, string list) call" where
  "recording_operation \<equiv> (\<lambda>self args kwargs w. (Inr (PyBool True), w @ [''wrapped operation'']))"

section \<open>Evaluation rules\<close>

lemmas time_defs =
  check_and_convert_time_def convert_time_input_def except_handler_def
  fromtimestamp_succeeds_def str_isdigit_def str_replace_dot_once_def isdigit_char_def
  isdecimal_char_def int_of_str_def decimal_value_def

lemmas sample_defs = sample_lib_def sample_float_of_str_def

section \<open>Properties of the administrator permission\<close>

text \<open>
  On a miss in the cache it consults, \<^verbatim>\<open>get_admin_permission\<close> has no value for
  \<^verbatim>\<open>permission\<close>: a request for the read or the write level reads the unbound
  local and raises. The method never looks at \<^verbatim>\<open>roles_cache\<close>.
\<close>

lemma get_admin_permission_unbound:
  "job_permission_cache self (user_id self) = None \<Longrightarrow>
   requested_permission = PyPerm READ \<or> requested_permission = PyPerm WRITE \<Longrightarrow>
   get_admin_permission self requested_permission = Inl UnboundLocalError_permission"
  by (auto simp add: get_admin_permission_def)

lemma get_admin_permission_ignores_roles_cache:
  "get_admin_permission (self\<lparr>roles_cache := c\<rparr>) requested_permission =
   get_admin_permission self requested_permission"
  by (simp add: get_admin_permission_def)

text \<open>
  C1: a caller absent from the administrator cache should have a permission resolved,
  from a cache or by an external fetch, before the requested level is compared with it.
  The method does not do so: for the caller \<^verbatim>\<open>alice\<close>, with both caches empty, the
  comparison is reached with \<^verbatim>\<open>permission\<close> unbound, and the call ends in
  \<^verbatim>\<open>UnboundLocalError\<close> for the read level and for the write level.
\<close>

theorem get_admin_permission_cache_miss:
  "get_admin_permission (sample_caller ''alice'' Map.empty Map.empty) (PyPerm READ) =
     Inl UnboundLocalError_permission \<and>
   get_admin_permission (sample_caller ''alice'' Map.empty Map.empty) (PyPerm WRITE) =
     Inl UnboundLocalError_permission"
  by (simp add: get_admin_permission_def)

text \<open>
  C2: an administrator lookup should read only the administrator cache
  \<^verbatim>\<open>roles_cache\<close>, so that an entry of the job-permission cache is never observable
  through it. The method reads \<^verbatim>\<open>job_permission_cache\<close> instead: an entry stored
  there under the caller's identity grants the write-administrator level although
  \<^verbatim>\<open>roles_cache\<close> is empty, and an entry of \<^verbatim>\<open>roles_cache\<close> for the caller is
  not found.
\<close>

theorem get_admin_permission_reads_job_permission_cache:
  "get_admin_permission
     (sample_caller ''alice'' [PyStr ''alice'' \<mapsto> PyPerm WRITE] Map.empty) (PyPerm WRITE) =
     Inr True \<and>
   get_admin_permission
     (sample_caller ''alice'' Map.empty [PyStr ''alice'' \<mapsto> PyPerm WRITE]) (PyPerm WRITE) =
     Inl UnboundLocalError_permission"
  by (simp add: get_admin_permission_def)

text \<open>
  C3: for every caller, \<^verbatim>\<open>get_admin_permission\<close> called with the requested
  permission \<^verbatim>\<open>None\<close> (and likewise with the enum member
  \<^verbatim>\<open>JobPermissions.NONE\<close>) raises the programming-error exception, whatever the
  caller's identity and whatever the caches hold; it returns neither true nor false.
\<close>

theorem get_admin_permission_none_raises:
  "get_admin_permission self PyNone = Inl Exception_programming_error \<and>
   get_admin_permission self (PyPerm NONE) = Inl Exception_programming_error"
  by (simp add: get_admin_permission_def)

text \<open>
  C4: for every permission level \<open>p\<close> that the lookup binds to \<^verbatim>\<open>permission\<close>,
  a request for the read level is answered true exactly when \<open>p\<close> is not
  \<^verbatim>\<open>NONE\<close>, and a request for the write level is answered true exactly when \<open>p\<close>
  is \<^verbatim>\<open>WRITE\<close>.
\<close>

theorem get_admin_permission_satisfies:
  "job_permission_cache self (user_id self) = Some (PyPerm p) \<Longrightarrow>
   get_admin_permission self (PyPerm READ) = Inr (p \<noteq> NONE) \<and>
   get_admin_permission self (PyPerm WRITE) = Inr (p = WRITE)"
  by (cases p) (simp_all add: get_admin_permission_def)

theorem get_admin_permission_satisfies_witness:
  "job_permission_cache
     (sample_caller ''alice'' [PyStr ''alice'' \<mapsto> PyPerm READ] Map.empty)
     (user_id (sample_caller ''alice'' [PyStr ''alice'' \<mapsto> PyPerm READ] Map.empty)) =
     Some (PyPerm READ) \<and>
   get_admin_permission
     (sample_caller ''alice'' [PyStr ''alice'' \<mapsto> PyPerm READ] Map.empty) (PyPerm READ) =
     Inr True \<and>
   get_admin_permission
     (sample_caller ''alice'' [PyStr ''alice'' \<mapsto> PyPerm READ] Map.empty) (PyPerm WRITE) =
     Inr False"
  using get_admin_permission_satisfies
    [of "sample_caller ''alice'' [PyStr ''alice'' \<mapsto> PyPerm READ] Map.empty" READ]
  by simp

section \<open>Properties of the delegating methods\<close>

text \<open>
  C5: \<^verbatim>\<open>check_job_canceled\<close> called with \<^verbatim>\<open>as_admin=True\<close> asks for the read
  level only, and what it does is fixed by the answer of
  \<^verbatim>\<open>get_admin_permission(READ)\<close>. When the answer is true, its outcome and its
  effect on the world are those of the delegated status check, which is the only
  collaborator it calls (it has no job-permission test to call); a cached read level is
  enough for that. When the answer is false, the call raises the exception that names
  the read level and the world is left as it was. When the lookup raises, the exception
  propagates, the world is left as it was and nothing is delegated. In terms of the
  cache the lookup consults: a cached read or write level delegates, any other cached
  value is refused, and a caller absent from the cache ends in
  \<^verbatim>\<open>UnboundLocalError\<close>.
\<close>

theorem check_job_canceled_as_admin:
  "check_job_canceled self jobs_status job_id (PyBool True) w =
     (case get_admin_permission self (PyPerm READ) of
        Inl e \<Rightarrow> (Inl e, w)
      | Inr permitted \<Rightarrow>
          if permitted then jobs_status (JS_check_job_canceled job_id (PyBool True)) w
          else (Inl (Exception_not_permitted READ), w)) \<and>
   check_job_canceled self jobs_status job_id (PyBool True) w =
     (case job_permission_cache self (user_id self) of
        None \<Rightarrow> (Inl UnboundLocalError_permission, w)
      | Some p \<Rightarrow>
          if p = PyPerm READ \<or> p = PyPerm WRITE
          then jobs_status (JS_check_job_canceled job_id (PyBool True)) w
          else (Inl (Exception_not_permitted READ), w)) \<and>
   (get_admin_permission self (PyPerm READ) = Inr True \<longrightarrow>
      check_job_canceled self jobs_status job_id (PyBool True) w =
        jobs_status (JS_check_job_canceled job_id (PyBool True)) w) \<and>
   (get_admin_permission self (PyPerm READ) = Inr False \<longrightarrow>
      check_job_canceled self jobs_status job_id (PyBool True) w =
        (Inl (Exception_not_permitted READ), w)) \<and>
   (get_admin_permission self (PyPerm READ) = Inl e \<longrightarrow>
      check_job_canceled self jobs_status job_id (PyBool True) w = (Inl e, w)) \<and>
   (job_permission_cache self (user_id self) = Some (PyPerm READ) \<longrightarrow>
      check_job_canceled self jobs_status job_id (PyBool True) w =
        jobs_status (JS_check_job_canceled job_id (PyBool True)) w)"
proof -
  have by_answer: "check_job_canceled self jobs_status job_id (PyBool True) w =
     (case get_admin_permission self (PyPerm READ) of
        Inl e \<Rightarrow> (Inl e, w)
      | Inr permitted \<Rightarrow>
          if permitted then jobs_status (JS_check_job_canceled job_id (PyBool True)) w
          else (Inl (Exception_not_permitted READ), w))"
    by (simp add: check_job_canceled_def split: sum.split)
  have answer: "get_admin_permission self (PyPerm READ) =
     (case job_permission_cache self (user_id self) of
        None \<Rightarrow> Inl UnboundLocalError_permission
      | Some p \<Rightarrow> Inr (p = PyPerm READ \<or> p = PyPerm WRITE))"
    by (simp add: get_admin_permission_def split: option.split)
  have by_cache: "check_job_canceled self jobs_status job_id (PyBool True) w =
     (case job_permission_cache self (user_id self) of
        None \<Rightarrow> (Inl UnboundLocalError_permission, w)
      | Some p \<Rightarrow>
          if p = PyPerm READ \<or> p = PyPerm WRITE
          then jobs_status (JS_check_job_canceled job_id (PyBool True)) w
          else (Inl (Exception_not_permitted READ), w))"
    unfolding by_answer answer by (simp split: option.split)
  have t: "get_admin_permission self (PyPerm READ) = Inr True \<longrightarrow>
      check_job_canceled self jobs_status job_id (PyBool True) w =
        jobs_status (JS_check_job_canceled job_id (PyBool True)) w"
    unfolding by_answer by simp
  have f: "get_admin_permission self (PyPerm READ) = Inr False \<longrightarrow>
      check_job_canceled self jobs_status job_id (PyBool True) w =
        (Inl (Exception_not_permitted READ), w)"
    unfolding by_answer by simp
  have r: "get_admin_permission self (PyPerm READ) = Inl e \<longrightarrow>
      check_job_canceled self jobs_status job_id (PyBool True) w = (Inl e, w)"
    unfolding by_answer by simp
  have c: "job_permission_cache self (user_id self) = Some (PyPerm READ) \<longrightarrow>
      check_job_canceled self jobs_status job_id (PyBool True) w =
        jobs_status (JS_check_job_canceled job_id (PyBool True)) w"
    unfolding by_cache by simp
  from by_answer by_cache t f r c show ?thesis by blast
qed

theorem check_job_canceled_as_admin_witness:
  "get_admin_permission
     (sample_caller ''alice'' [PyStr ''alice'' \<mapsto> PyPerm READ] Map.empty) (PyPerm READ) =
     Inr True \<and>
   check_job_canceled
     (sample_caller ''alice'' [PyStr ''alice'' \<mapsto> PyPerm READ] Map.empty)
     recording_jobs_status (PyStr ''job1'') (PyBool True) [] =
     (Inr (PyBool False), [JS_check_job_canceled (PyStr ''job1'') (PyBool True)]) \<and>
   get_admin_permission
     (sample_caller ''bob'' [PyStr ''bob'' \<mapsto> PyPerm NONE] Map.empty) (PyPerm READ) =
     Inr False \<and>
   check_job_canceled
     (sample_caller ''bob'' [PyStr ''bob'' \<mapsto> PyPerm NONE] Map.empty)
     recording_jobs_status (PyStr ''job1'') (PyBool True) [] =
     (Inl (Exception_not_permitted READ), []) \<and>
   get_admin_permission (sample_caller ''eve'' Map.empty Map.empty) (PyPerm READ) =
     Inl UnboundLocalError_permission \<and>
   check_job_canceled (sample_caller ''eve'' Map.empty Map.empty)
     recording_jobs_status (PyStr ''job1'') (PyBool True) [] =
     (Inl UnboundLocalError_permission, [])"
  using
    check_job_canceled_as_admin
      [of "sample_caller ''alice'' [PyStr ''alice'' \<mapsto> PyPerm READ] Map.empty"
          recording_jobs_status "PyStr ''job1''" "[]"]
    check_job_canceled_as_admin
      [of "sample_caller ''bob'' [PyStr ''bob'' \<mapsto> PyPerm NONE] Map.empty"
          recording_jobs_status "PyStr ''job1''" "[]"]
    check_job_canceled_as_admin
      [of "sample_caller ''eve'' Map.empty Map.empty"
          recording_jobs_status "PyStr ''job1''" "[]" UnboundLocalError_permission]
  by (simp add: get_admin_permission_def)

text \<open>
  C10: the outcome and the effects of \<^verbatim>\<open>check_job\<close> and of
  \<^verbatim>\<open>update_job_status\<close> do not depend on \<^verbatim>\<open>as_admin\<close>: for any two values
  of the flag the delegated call is the same one, built from the other arguments alone.
\<close>

theorem check_job_update_job_status_ignore_as_admin:
  "check_job jobs_status job_id check_permission exclude_fields as_admin =
     check_job jobs_status job_id check_permission exclude_fields as_admin' \<and>
   check_job jobs_status job_id check_permission exclude_fields as_admin =
     jobs_status (JS_check_job job_id check_permission exclude_fields) \<and>
   update_job_status jobs_status job_id status as_admin =
     update_job_status jobs_status job_id status as_admin' \<and>
   update_job_status jobs_status job_id status as_admin =
     jobs_status (JS_update_job_status job_id status)"
  by (simp add: check_job_def update_job_status_def)

section \<open>Properties of the permission decorators\<close>

text \<open>
  C9: when \<^verbatim>\<open>job_id\<close> is absent from the keyword arguments (the key is missing or
  its value is \<^verbatim>\<open>None\<close>), the function wrapped by \<^verbatim>\<open>allow_job_read\<close> or by
  \<^verbatim>\<open>allow_job_write\<close> raises \<^verbatim>\<open>ValueError\<close> and leaves the world as it was,
  whatever the permission test and the wrapped operation would do: neither is called.
\<close>

theorem allow_job_gates_need_job_id:
  "kwargs_get kwargs ''job_id'' = PyNone \<Longrightarrow>
   allow_job_read test_job_permission_with_cache func self args kwargs w =
     (Inl ValueError_job_id, w) \<and>
   allow_job_write test_job_permission_with_cache func self args kwargs w =
     (Inl ValueError_job_id, w)"
  by (simp add: allow_job_read_def allow_job_write_def)

theorem allow_job_gates_need_job_id_witness:
  "kwargs_get (Map.empty :: string \<rightharpoonup> (rat, rat) pyval) ''job_id'' = PyNone \<and>
   allow_job_read recording_permission_test recording_operation
     (sample_caller ''alice'' Map.empty Map.empty) [PyStr ''job1''] Map.empty [] =
     (Inl ValueError_job_id, []) \<and>
   allow_job_write recording_permission_test recording_operation
     (sample_caller ''alice'' Map.empty Map.empty) [PyStr ''job1''] Map.empty [] =
     (Inl ValueError_job_id, []) \<and>
   kwargs_get [''job_id'' \<mapsto> PyNone :: (rat, rat) pyval] ''job_id'' = PyNone \<and>
   allow_job_write recording_permission_test recording_operation
     (sample_caller ''alice'' Map.empty Map.empty) [] [''job_id'' \<mapsto> PyNone] [] =
     (Inl ValueError_job_id, [])"
  using
    allow_job_gates_need_job_id
      [of Map.empty recording_permission_test recording_operation
          "sample_caller ''alice'' Map.empty Map.empty" "[PyStr ''job1'']" "[]"]
    allow_job_gates_need_job_id
      [of "[''job_id'' \<mapsto> PyNone]" recording_permission_test recording_operation
          "sample_caller ''alice'' Map.empty Map.empty" "[]" "[]"]
  by (simp add: kwargs_get_def)

text \<open>With a job id the same collaborators are reached, in this order.\<close>

lemma allow_job_read_reaches_collaborators:
  "allow_job_read recording_permission_test recording_operation
     (sample_caller ''alice'' Map.empty Map.empty) [] [''job_id'' \<mapsto> PyStr ''job1''] [] =
     (Inr (PyBool True), [''permission test'', ''wrapped operation''])"
  by (simp add: allow_job_read_def kwargs_get_def)

section \<open>Properties of the timestamp conversion\<close>

text \<open>
  C6: for a string that is all digits once at most one dot is removed, and whose parsed
  value is a representable point in time, the conversion returns \<^verbatim>\<open>float(s)\<close>
  when the string has a dot and \<^verbatim>\<open>int(s) / 1000.0\<close> when it has none; an integer
  is divided by 1000.0 under the same condition. This holds for every behaviour of the
  library. In the sample library \<^verbatim>\<open>"1610000000000"\<close>, \<^verbatim>\<open>"1610000000.0"\<close> and
  the integer 1610000000000 all give 1610000000.0.
\<close>

theorem numeric_string_conversion_when_representable:
  "(str_isdigit (str_replace_dot_once s) \<and> CHR ''.'' \<in> set s \<and>
      float_of_str lib s = Some t \<and> fromtimestamp_ok lib t \<longrightarrow>
      check_and_convert_time lib (PyStr s) assign_default_time = (Inr (PyFloat t), [])) \<and>
   (str_isdigit (str_replace_dot_once s) \<and> CHR ''.'' \<notin> set s \<and>
      int_of_str s = Some n \<and> int_truediv_1000 lib n = Some t \<and> fromtimestamp_ok lib t \<longrightarrow>
      check_and_convert_time lib (PyStr s) assign_default_time = (Inr (PyFloat t), [])) \<and>
   (int_truediv_1000 lib n = Some t \<and> fromtimestamp_ok lib t \<longrightarrow>
      check_and_convert_time lib (PyInt n) assign_default_time = (Inr (PyFloat t), [])) \<and>
   check_and_convert_time sample_lib (PyStr ''1610000000000'') assign_default_time =
     (Inr (PyFloat 1610000000), []) \<and>
   check_and_convert_time sample_lib (PyStr ''1610000000.0'') assign_default_time =
     (Inr (PyFloat 1610000000), []) \<and>
   check_and_convert_time sample_lib (PyInt 1610000000000) assign_default_time =
     (Inr (PyFloat 1610000000), [])"
proof -
  have dotted: "str_isdigit (str_replace_dot_once s) \<and> CHR ''.'' \<in> set s \<and>
      float_of_str lib s = Some t \<and> fromtimestamp_ok lib t \<longrightarrow>
      check_and_convert_time lib (PyStr s) assign_default_time = (Inr (PyFloat t), [])"
    by (simp add: check_and_convert_time_def convert_time_input_def fromtimestamp_succeeds_def)
  have plain: "str_isdigit (str_replace_dot_once s) \<and> CHR ''.'' \<notin> set s \<and>
      int_of_str s = Some n \<and> int_truediv_1000 lib n = Some t \<and> fromtimestamp_ok lib t \<longrightarrow>
      check_and_convert_time lib (PyStr s) assign_default_time = (Inr (PyFloat t), [])"
    by (simp add: check_and_convert_time_def convert_time_input_def fromtimestamp_succeeds_def)
  have integer: "int_truediv_1000 lib n = Some t \<and> fromtimestamp_ok lib t \<longrightarrow>
      check_and_convert_time lib (PyInt n) assign_default_time = (Inr (PyFloat t), [])"
    by (simp add: check_and_convert_time_def convert_time_input_def fromtimestamp_succeeds_def)
  have e1: "check_and_convert_time sample_lib (PyStr ''1610000000000'') assign_default_time =
     (Inr (PyFloat 1610000000), [])"
    by (simp add: time_defs sample_defs)
  have e2: "check_and_convert_time sample_lib (PyStr ''1610000000.0'') assign_default_time =
     (Inr (PyFloat 1610000000), [])"
    by (simp add: time_defs sample_defs)
  have e3: "check_and_convert_time sample_lib (PyInt 1610000000000) assign_default_time =
     (Inr (PyFloat 1610000000), [])"
    by (simp add: time_defs sample_defs)
  from dotted plain integer e1 e2 e3 show ?thesis by blast
qed

theorem numeric_string_conversion_when_representable_witness:
  "str_isdigit (str_replace_dot_once ''1610000000.0'') \<and> CHR ''.'' \<in> set ''1610000000.0'' \<and>
   float_of_str sample_lib ''1610000000.0'' = Some 1610000000 \<and>
   fromtimestamp_ok sample_lib 1610000000 \<and>
   check_and_convert_time sample_lib (PyStr ''1610000000.0'') False =
     (Inr (PyFloat 1610000000), []) \<and>
   str_isdigit (str_replace_dot_once ''1610000000000'') \<and> CHR ''.'' \<notin> set ''1610000000000'' \<and>
   int_of_str ''1610000000000'' = Some 1610000000000 \<and>
   int_truediv_1000 sample_lib 1610000000000 = Some 1610000000 \<and>
   check_and_convert_time sample_lib (PyStr ''1610000000000'') False =
     (Inr (PyFloat 1610000000), []) \<and>
   check_and_convert_time sample_lib (PyInt 1610000000000) False =
     (Inr (PyFloat 1610000000), [])"
proof -
  have h1: "str_isdigit (str_replace_dot_once ''1610000000.0'')"
    by (simp add: str_isdigit_def str_replace_dot_once_def isdigit_char_def isdecimal_char_def)
  have h2: "CHR ''.'' \<in> set ''1610000000.0''" by simp
  have h3: "float_of_str sample_lib ''1610000000.0'' = Some 1610000000"
    by (simp add: sample_defs isdecimal_char_def decimal_value_def)
  have h4: "fromtimestamp_ok sample_lib 1610000000" by (simp add: sample_lib_def)
  have g1: "str_isdigit (str_replace_dot_once ''1610000000000'')"
    by (simp add: str_isdigit_def str_replace_dot_once_def isdigit_char_def isdecimal_char_def)
  have g2: "CHR ''.'' \<notin> set ''1610000000000''" by simp
  have g3: "int_of_str ''1610000000000'' = Some 1610000000000"
    by (simp add: int_of_str_def isdecimal_char_def decimal_value_def)
  have g4: "int_truediv_1000 sample_lib 1610000000000 = Some 1610000000"
    by (simp add: sample_lib_def)
  note main = numeric_string_conversion_when_representable
  from main [of "''1610000000.0''" sample_lib 1610000000 False] h1 h2 h3 h4
  have r1: "check_and_convert_time sample_lib (PyStr ''1610000000.0'') False =
     (Inr (PyFloat 1610000000), [])" by blast
  from main [of "''1610000000000''" sample_lib 1610000000 False 1610000000000] g1 g2 g3 g4 h4
  have r2: "check_and_convert_time sample_lib (PyStr ''1610000000000'') False =
     (Inr (PyFloat 1610000000), [])" by blast
  from main [of "''1610000000000''" sample_lib 1610000000 False 1610000000000] g4 h4
  have r3: "check_and_convert_time sample_lib (PyInt 1610000000000) False =
     (Inr (PyFloat 1610000000), [])" by blast
  from h1 h2 h3 h4 g1 g2 g3 g4 r1 r2 r3 show ?thesis by blast
qed

text \<open>
  Without the condition the statement fails: the digits of \<^verbatim>\<open>"1000000000000000000"\<close>
  parse to an integer whose quotient by 1000 lies beyond the year 9999, the
  representability check raises, and the conversion ends in \<^verbatim>\<open>ValueError\<close>.
\<close>

theorem numeric_string_out_of_range_counterexample:
  "str_isdigit (str_replace_dot_once ''1000000000000000000'') \<and>
   CHR ''.'' \<notin> set ''1000000000000000000'' \<and>
   int_of_str ''1000000000000000000'' = Some 1000000000000000000 \<and>
   int_truediv_1000 sample_lib 1000000000000000000 = Some 1000000000000000 \<and>
   check_and_convert_time sample_lib (PyStr ''1000000000000000000'') False =
     (Inl (ValueError_time (PyFloat 1000000000000000)), []) \<and>
   check_and_convert_time sample_lib (PyStr ''1000000000000000000'') False \<noteq>
     (Inr (PyFloat 1000000000000000), [])"
  by (simp add: time_defs sample_defs)

text \<open>
  A failed conversion has two outcomes and no other. With \<^verbatim>\<open>assign_default_time\<close>
  true one record is logged and the value of \<^verbatim>\<open>time.time()\<close> is returned; with
  it false \<^verbatim>\<open>ValueError\<close> is raised. The handler formats the value that
  \<^verbatim>\<open>time_input\<close> holds when it is entered.
\<close>

lemma failed_conversion_outcomes:
  "(convert_time_input lib time_input = None \<longrightarrow>
      check_and_convert_time lib time_input True =
        (Inr (PyFloat (time_time lib)), [Logging_info_cannot_convert time_input]) \<and>
      check_and_convert_time lib time_input False = (Inl (ValueError_time time_input), [])) \<and>
   (convert_time_input lib time_input = Some v \<and> \<not> fromtimestamp_succeeds lib v \<longrightarrow>
      check_and_convert_time lib time_input True =
        (Inr (PyFloat (time_time lib)), [Logging_info_cannot_convert v]) \<and>
      check_and_convert_time lib time_input False = (Inl (ValueError_time v), []))"
  by (simp add: check_and_convert_time_def except_handler_def)

text \<open>
  C7: on a failed conversion with \<^verbatim>\<open>assign_default_time\<close> false the error
  message should identify the offending input, as it does when a parsing step raises
  (\<^verbatim>\<open>"abc"\<close>) and when the input is left as it is (\<^verbatim>\<open>None\<close>). For the
  integer 1000000000000000000 it does not: the assignment
  \<^verbatim>\<open>time_input = time_input / 1000.0\<close> has replaced the input before
  \<^verbatim>\<open>datetime.fromtimestamp\<close> raises, so the error, and the record logged when
  \<^verbatim>\<open>assign_default_time\<close> is true, carry the float 1000000000000000.0 and the
  input is lost.
\<close>

theorem failed_check_message_loses_input:
  "convert_time_input sample_lib (PyInt 1000000000000000000) =
     Some (PyFloat 1000000000000000) \<and>
   \<not> fromtimestamp_succeeds sample_lib (PyFloat 1000000000000000) \<and>
   check_and_convert_time sample_lib (PyInt 1000000000000000000) False =
     (Inl (ValueError_time (PyFloat 1000000000000000)), []) \<and>
   check_and_convert_time sample_lib (PyInt 1000000000000000000) False \<noteq>
     (Inl (ValueError_time (PyInt 1000000000000000000)), []) \<and>
   check_and_convert_time sample_lib (PyInt 1000000000000000000) True =
     (Inr (PyFloat 1762214400), [Logging_info_cannot_convert (PyFloat 1000000000000000)]) \<and>
   check_and_convert_time sample_lib (PyStr ''abc'') False =
     (Inl (ValueError_time (PyStr ''abc'')), []) \<and>
   check_and_convert_time sample_lib PyNone False = (Inl (ValueError_time PyNone), [])"
  by (simp add: time_defs sample_defs)

text \<open>
  C8: a boolean is not rejected. It passes \<^verbatim>\<open>isinstance(time_input, int)\<close>, is
  divided by 1000.0 as the integer 1 or 0, and the quotient is returned whenever it is a
  representable point in time.
\<close>

theorem boolean_input_converted_as_int:
  "int_truediv_1000 lib (if b then 1 else 0) = Some t \<Longrightarrow> fromtimestamp_ok lib t \<Longrightarrow>
   check_and_convert_time lib (PyBool b) assign_default_time = (Inr (PyFloat t), [])"
  by (simp add: check_and_convert_time_def convert_time_input_def fromtimestamp_succeeds_def)

theorem boolean_input_converted_as_int_witness:
  "int_truediv_1000 sample_lib (if True then 1 else 0) = Some (1 / 1000) \<and>
   fromtimestamp_ok sample_lib (1 / 1000) \<and>
   check_and_convert_time sample_lib (PyBool True) False = (Inr (PyFloat (1 / 1000)), [])"
proof -
  have a: "int_truediv_1000 sample_lib (if True then 1 else 0) = Some (1 / 1000)"
    by (simp add: sample_lib_def)
  have b: "fromtimestamp_ok sample_lib (1 / 1000)"
    by (simp add: sample_lib_def)
  from boolean_input_converted_as_int [OF a b, of False] a b show ?thesis by simp
qed

text \<open>
  In the sample library \<^verbatim>\<open>True\<close> converts to 0.001 and \<^verbatim>\<open>False\<close> to 0.0, with
  \<^verbatim>\<open>assign_default_time\<close> false and no error.
\<close>

theorem boolean_input_accepted_counterexample:
  "check_and_convert_time sample_lib (PyBool True) False = (Inr (PyFloat (1 / 1000)), []) \<and>
   check_and_convert_time sample_lib (PyBool False) False = (Inr (PyFloat 0), [])"
  by (simp add: time_defs sample_defs)

end
